theory Spec2Isabelle
  imports Complex_Main
begin

section \<open>Vignetting and clear-aperture operations (rayoptics/raytr/vigcalc.py)\<close>

text \<open>
  The module drives two collaborators that live outside of it: the sequential ray
  tracer (\<^verbatim>\<open>trace.trace_base\<close>, \<^verbatim>\<open>trace.trace_boundary_rays\<close>) and the
  one-dimensional root finder (\<^verbatim>\<open>scipy.optimize.newton\<close>). Both are parameters of
  the model, so every theorem below holds for every tracer and every solver.
  Floating-point numbers are idealised as \<^typ>\<open>real\<close>; exceptions are values of the
  type \<open>exn\<close> carried in the left summand of a result.
\<close>

subsection \<open>Data\<close>

type_synonym vec2 = "real \<times> real"
type_synonym vec3 = "real \<times> real \<times> real"

text \<open>
  One ray segment: the intersection record of a ray with one interface. Only its
  position \<^verbatim>\<open>p\<close> is read here (\<^verbatim>\<open>ray[i].p\<close>, \<^verbatim>\<open>ray[i][mc.p]\<close>).
\<close>

record seg =
  p :: vec3

type_synonym ray = "seg list"

text \<open>
  The pupil axis \<^verbatim>\<open>xy\<close>: "0 or 1 depending on x or y axis as the pupil direction".
\<close>

datatype axis = AxisX | AxisY

text \<open>
  Modelled from the spec: the exception classes of the module \<^verbatim>\<open>traceerror\<close> are
  not part of the file; the spec gives the failure kinds \<^emph>\<open>blocked\<close>, \<^emph>\<open>missed\<close>
  and \<^emph>\<open>total internal reflection\<close>, each "carrying the partial Ray and the index
  of the surface where failure occurred" (\<^verbatim>\<open>te.ray_pkg\<close>, \<^verbatim>\<open>te.surf\<close>).
  \<open>Missed\<close> is \<^verbatim>\<open>TraceMissedSurfaceError\<close>, \<open>TIR\<close> is \<^verbatim>\<open>TraceTIRError\<close>,
  \<open>Blocked\<close> is any other \<^verbatim>\<open>TraceError\<close>; all three are caught by
  \<^verbatim>\<open>except terr.TraceError\<close>.
\<close>

datatype trace_kind = Blocked | Missed | TIR

text \<open>The exceptions that the code of the module can raise or let pass.\<close>

datatype exn =
    TraceError trace_kind nat ray
  | RuntimeError
  | IndexError
  | UnboundLocalError

text \<open>
  Modelled from the spec: the outcome of one trace is "either a complete Ray, or a
  typed failure carrying the partial Ray and the index of the surface where failure
  occurred".
\<close>

datatype trace_outcome = Traced ray | Failed trace_kind nat ray

text \<open>
  The tracer is a parameter: \<^verbatim>\<open>trace.trace_base(opm, rel_p1, fld, wvl,
  apply_vignetting=False, check_apertures=b)\<close> for a fixed model, field and
  wavelength is a function of the pupil coordinate and of the flag
  \<^verbatim>\<open>check_apertures\<close>. The ray package is represented by its ray
  (\<^verbatim>\<open>ray_pkg[0]\<close>); the path length and the wavelength in it are not read by
  this module.
\<close>

type_synonym tracer = "vec2 \<Rightarrow> bool \<Rightarrow> trace_outcome"

text \<open>
  The solver is a parameter: \<^verbatim>\<open>newton(func, x0, args=..., tol=1e-6, disp=False,
  full_output=True)\<close> returns the pair of the root estimate and the flag
  \<^verbatim>\<open>results.converged\<close>, or it raises (an exception of the objective passes
  through it).
\<close>

type_synonym solver = "(real \<Rightarrow> exn + real) \<Rightarrow> real \<Rightarrow> exn + (real \<times> bool)"

text \<open>
  Modelled from the spec: the interface class is not part of the file. An interface
  has a mutable clear-aperture radius, written by \<^verbatim>\<open>set_max_aperture\<close>, and a fixed
  outer radius, read by \<^verbatim>\<open>surface_od()\<close>.
\<close>

record ifc =
  max_aperture :: real
  surface_od :: real

subsection \<open>Vectors, indexing, arithmetic of the host language\<close>

fun get_axis :: "vec2 \<Rightarrow> axis \<Rightarrow> real" where
  "get_axis v AxisX = fst v"
| "get_axis v AxisY = snd v"

fun set_axis :: "vec2 \<Rightarrow> axis \<Rightarrow> real \<Rightarrow> vec2" where
  "set_axis v AxisX c = (c, snd v)"
| "set_axis v AxisY c = (fst v, c)"

fun other_axis :: "axis \<Rightarrow> axis" where
  "other_axis AxisX = AxisY"
| "other_axis AxisY = AxisX"

text \<open>\<^verbatim>\<open>sqrt(v[0]**2 + v[1]**2)\<close>\<close>

definition radial :: "vec3 \<Rightarrow> real" where
  "radial v = sqrt ((fst v)\<^sup>2 + (fst (snd v))\<^sup>2)"

text \<open>A list read by index raises \<^verbatim>\<open>IndexError\<close> out of range.\<close>

definition item :: "'a list \<Rightarrow> nat \<Rightarrow> exn + 'a" where
  "item xs i = (if i < length xs then Inr (xs ! i) else Inl IndexError)"

text \<open>
  The quotient of a NumPy scalar by zero is not an exception: it is \<^verbatim>\<open>inf\<close> or
  \<^verbatim>\<open>nan\<close> (with a warning). \<open>None\<close> stands for such a non-finite number.
\<close>

definition np_divide :: "real \<Rightarrow> real \<Rightarrow> real option" where
  "np_divide a b = (if b = 0 then None else Some (a / b))"

subsection \<open>\<^verbatim>\<open>iterate_pupil_ray\<close>\<close>

text \<open>
  The objective handed to the root finder. \<open>height_at\<close> is its last two
  statements, \<^verbatim>\<open>r_ray = sqrt(ray[indx][mc.p][0]**2 + ray[indx][mc.p][1]**2)\<close> and
  \<^verbatim>\<open>return r_ray - r_target\<close>.
\<close>

definition height_at :: "ray \<Rightarrow> nat \<Rightarrow> real \<Rightarrow> exn + real" where
  "height_at r indx r_target =
     (case item r indx of
        Inl e \<Rightarrow> Inl e
      | Inr s \<Rightarrow> Inr (radial (p s) - r_target))"

definition r_pupil_coordinate ::
    "tracer \<Rightarrow> nat \<Rightarrow> axis \<Rightarrow> real \<Rightarrow> real \<Rightarrow> exn + real" where
  "r_pupil_coordinate tr indx xy r_target xy_coord =
     (let rel_p1 = set_axis (0, 0) xy xy_coord in
      case tr rel_p1 False of
        Traced r \<Rightarrow> height_at r indx r_target
      | Failed Missed surf r \<Rightarrow>
          if surf \<le> indx then Inl (TraceError Missed surf r)
          else height_at r indx r_target
      | Failed TIR surf r \<Rightarrow>
          if surf < indx then Inl (TraceError TIR surf r)
          else height_at r indx r_target
      | Failed Blocked surf r \<Rightarrow> Inl (TraceError Blocked surf r))"

text \<open>
  The body of \<^verbatim>\<open>iterate_pupil_ray\<close>. In the handler of \<^verbatim>\<open>RuntimeError\<close> the
  name \<^verbatim>\<open>results\<close> has not been bound (the assignment of the \<^verbatim>\<open>try\<close> block did
  not happen), so reading \<^verbatim>\<open>results.root\<close> raises \<^verbatim>\<open>UnboundLocalError\<close>.
\<close>

definition iterate_pupil_ray ::
    "tracer \<Rightarrow> solver \<Rightarrow> nat option \<Rightarrow> axis \<Rightarrow> real \<Rightarrow> real \<Rightarrow> exn + vec2" where
  "iterate_pupil_ray tr newton indx xy start_r0 r_target =
     (let start_coords = (0, 0) in
      case indx of
        Some i \<Rightarrow>
          (case newton (r_pupil_coordinate tr i xy r_target) start_r0 of
             Inr (start_r, converged) \<Rightarrow> Inr (set_axis start_coords xy start_r)
           | Inl RuntimeError \<Rightarrow> Inl UnboundLocalError
           | Inl (TraceError k surf r) \<Rightarrow> Inr (set_axis start_coords xy 0)
           | Inl e \<Rightarrow> Inl e)
      | None \<Rightarrow> Inr (set_axis start_coords xy r_target))"

subsection \<open>\<^verbatim>\<open>calc_vignetted_ray\<close>\<close>

text \<open>
  The local variables of the search loop. \<open>ray_pkg\<close> is \<open>None\<close> as long as the
  name is unbound.
\<close>

record vstate =
  rel_p1 :: vec2
  still_iterating :: bool
  last_indx :: "nat option"
  iter_count :: int
  ray_pkg :: "ray option"

definition init_state :: "vec2 \<Rightarrow> vstate" where
  "init_state start_dir =
     \<lparr>rel_p1 = start_dir, still_iterating = True, last_indx = None,
      iter_count = 0, ray_pkg = None\<rparr>"

text \<open>
  \<^verbatim>\<open>r_target = sm.ifcs[indx].surface_od()\<close> followed by the call of
  \<^verbatim>\<open>iterate_pupil_ray\<close> and the three assignments after it.
\<close>

definition aim_at ::
    "tracer \<Rightarrow> solver \<Rightarrow> ifc list \<Rightarrow> axis \<Rightarrow> nat \<Rightarrow> vstate \<Rightarrow> exn + vstate" where
  "aim_at tr newton ifcs xy indx s =
     (case item ifcs indx of
        Inl e \<Rightarrow> Inl e
      | Inr f \<Rightarrow>
          (case iterate_pupil_ray tr newton (Some indx) xy (get_axis (rel_p1 s) xy)
                  (surface_od f) of
             Inl e \<Rightarrow> Inl e
           | Inr c \<Rightarrow>
               Inr (s\<lparr>rel_p1 := c, still_iterating := True, last_indx := Some indx\<rparr>)))"

text \<open>One pass through the body of the \<^verbatim>\<open>while\<close> loop.\<close>

definition vig_step ::
    "tracer \<Rightarrow> solver \<Rightarrow> ifc list \<Rightarrow> nat option \<Rightarrow> axis \<Rightarrow> vstate \<Rightarrow> exn + vstate" where
  "vig_step tr newton ifcs stop_surface xy s0 =
     (let s = s0\<lparr>iter_count := iter_count s0 + 1\<rparr> in
      case tr (rel_p1 s) True of
        Failed k indx r \<Rightarrow>
          (let s1 = s\<lparr>ray_pkg := Some r\<rparr> in
           if Some indx = last_indx s1 then Inr (s1\<lparr>still_iterating := False\<rparr>)
           else aim_at tr newton ifcs xy indx s1)
      | Traced r \<Rightarrow>
          (let s1 = s\<lparr>ray_pkg := Some r\<rparr> in
           if last_indx s1 \<noteq> None then Inr (s1\<lparr>still_iterating := False\<rparr>)
           else (case stop_surface of
                   Some stop_indx \<Rightarrow> aim_at tr newton ifcs xy stop_indx s1
                 | None \<Rightarrow> Inr (s1\<lparr>still_iterating := False\<rparr>))))"

function vig_loop ::
    "tracer \<Rightarrow> solver \<Rightarrow> ifc list \<Rightarrow> nat option \<Rightarrow> axis \<Rightarrow> int \<Rightarrow> vstate \<Rightarrow> exn + vstate" where
  "vig_loop tr newton ifcs stop_surface xy max_iter_count s =
     (if still_iterating s \<and> iter_count s < max_iter_count then
        (case vig_step tr newton ifcs stop_surface xy s of
           Inl e \<Rightarrow> Inl e
         | Inr s' \<Rightarrow> vig_loop tr newton ifcs stop_surface xy max_iter_count s')
      else Inr s)"
  by pat_completeness auto
termination
proof (relation "measure (\<lambda>(tr, newton, ifcs, stop_surface, xy, m, s). nat (m - iter_count s))")
  show "wf (measure (\<lambda>(tr, newton, ifcs, stop_surface, xy, m, s). nat (m - iter_count s)))"
    by simp
next
  fix tr :: tracer and newton :: solver and ifcs :: "ifc list" and stop_surface :: "nat option"
    and xy :: axis and max_iter_count :: int and s s' :: vstate
  assume running: "still_iterating s \<and> iter_count s < max_iter_count"
    and step: "vig_step tr newton ifcs stop_surface xy s = Inr s'"
  have aim: "iter_count t' = iter_count t" if "aim_at tr newton ifcs xy i t = Inr t'" for i t t'
    using that by (auto simp: aim_at_def split: sum.splits)
  have "iter_count s' = iter_count s + 1"
    using step
    by (auto simp: vig_step_def Let_def dest!: aim
             split: trace_outcome.splits if_splits option.splits)
  with running
  show "((tr, newton, ifcs, stop_surface, xy, max_iter_count, s'),
         (tr, newton, ifcs, stop_surface, xy, max_iter_count, s))
        \<in> measure (\<lambda>(tr, newton, ifcs, stop_surface, xy, m, s). nat (m - iter_count s))"
    by simp
qed

declare vig_loop.simps [simp del]

text \<open>
  The two statements after the loop: \<^verbatim>\<open>vig = 1.0 - (rel_p1[xy]/start_dir[xy])\<close>
  and \<^verbatim>\<open>return vig, last_indx, ray_pkg\<close>. Reading \<^verbatim>\<open>ray_pkg\<close> while it is unbound
  raises \<^verbatim>\<open>UnboundLocalError\<close>.
\<close>

definition vig_factor :: "vec2 \<Rightarrow> axis \<Rightarrow> vstate \<Rightarrow> real option" where
  "vig_factor start_dir xy s =
     (case np_divide (get_axis (rel_p1 s) xy) (get_axis start_dir xy) of
        None \<Rightarrow> None
      | Some q \<Rightarrow> Some (1 - q))"

definition vig_return ::
    "vec2 \<Rightarrow> axis \<Rightarrow> vstate \<Rightarrow> exn + (real option \<times> nat option \<times> ray)" where
  "vig_return start_dir xy s =
     (let vig = vig_factor start_dir xy s in
      case ray_pkg s of
        None \<Rightarrow> Inl UnboundLocalError
      | Some r \<Rightarrow> Inr (vig, last_indx s, r))"

definition calc_vignetted_ray ::
    "tracer \<Rightarrow> solver \<Rightarrow> ifc list \<Rightarrow> nat option \<Rightarrow> axis \<Rightarrow> vec2 \<Rightarrow> int
       \<Rightarrow> exn + (real option \<times> nat option \<times> ray)" where
  "calc_vignetted_ray tr newton ifcs stop_surface xy start_dir max_iter_count =
     (case vig_loop tr newton ifcs stop_surface xy max_iter_count (init_state start_dir) of
        Inl e \<Rightarrow> Inl e
      | Inr s \<Rightarrow> vig_return start_dir xy s)"

subsection \<open>\<^verbatim>\<open>set_ape\<close>\<close>

text \<open>
  The two inner loops of \<^verbatim>\<open>set_ape\<close> for one interface index \<open>i\<close>: the pair is
  (\<^verbatim>\<open>max_ap\<close>, \<^verbatim>\<open>update\<close>). \<open>rayset\<close> is the result of
  \<^verbatim>\<open>trace.trace_boundary_rays\<close>, a parameter: for each field the list of the rays
  \<^verbatim>\<open>p.ray\<close> of its boundary rays. The final \<^verbatim>\<open>sync_to_seq\<close> copies the new
  apertures to the element model, which is outside of this model.
\<close>

definition scan_ray :: "nat \<Rightarrow> real \<times> bool \<Rightarrow> ray \<Rightarrow> real \<times> bool" where
  "scan_ray i acc r =
     (case acc of (max_ap, update) \<Rightarrow>
        if length r > i then
          (let ap = radial (p (r ! i)) in
           if ap > max_ap then (ap, update) else (max_ap, update))
        else (max_ap, False))"

definition scan_surface :: "nat \<Rightarrow> ray list list \<Rightarrow> real \<times> bool" where
  "scan_surface i rayset =
     foldl (\<lambda>acc f. foldl (scan_ray i) acc f) (- 10000000000, True) rayset"

definition set_ape :: "ray list list \<Rightarrow> ifc list \<Rightarrow> ifc list" where
  "set_ape rayset ifcs =
     map (\<lambda>(i, f). case scan_surface i rayset of (max_ap, update) \<Rightarrow>
            if update then f\<lparr>max_aperture := max_ap\<rparr> else f)
         (enumerate 0 ifcs)"

subsection \<open>A concrete solver and synthetic tracers\<close>

text \<open>
  The scenarios below need a tracer and a solver to run. \<open>secant_newton\<close> is the
  secant iteration that \<^verbatim>\<open>scipy.optimize.newton\<close> performs when it is given no
  derivative and \<^verbatim>\<open>disp=False\<close>: the second point is \<^verbatim>\<open>x0*(1 + 1e-4) \<plusminus> 1e-4\<close>,
  the loop runs at most \<open>maxiter\<close> times; it stops with \<^verbatim>\<open>converged = True\<close> when
  the new estimate is within \<open>tol\<close> of the previous one, and with
  \<^verbatim>\<open>converged = False\<close> when two function values coincide (the midpoint is
  returned) or when the loop is exhausted (the last estimate is returned;
  \<open>maxiter\<close> is at least 1 in every use). It is not part of the repository; the theorems do not
  depend on it, only the scenarios do.
\<close>

fun secant_iter ::
    "nat \<Rightarrow> (real \<Rightarrow> exn + real) \<Rightarrow> real \<Rightarrow> real \<Rightarrow> real \<Rightarrow> real \<Rightarrow> real \<Rightarrow> real
       \<Rightarrow> exn + (real \<times> bool)" where
  "secant_iter 0 f tol p0 q0 p1 q1 plast = Inr (plast, False)"
| "secant_iter (Suc n) f tol p0 q0 p1 q1 plast =
     (if q1 = q0 then Inr ((p1 + p0) / 2, False)
      else
        (let pn = (if \<bar>q1\<bar> > \<bar>q0\<bar> then (- q0 / q1 * p1 + p0) / (1 - q0 / q1)
                   else (- q1 / q0 * p0 + p1) / (1 - q1 / q0)) in
         if \<bar>pn - p1\<bar> \<le> tol then Inr (pn, True)
         else (case f pn of
                 Inl e \<Rightarrow> Inl e
               | Inr qn \<Rightarrow> secant_iter n f tol p1 q1 pn qn pn)))"

definition secant_newton :: "nat \<Rightarrow> real \<Rightarrow> solver" where
  "secant_newton maxiter tol f x0 =
     (let eps = 1 / 10000;
          p0 = x0;
          p1 = x0 * (1 + eps) + (if x0 * (1 + eps) \<ge> 0 then eps else - eps) in
      case f p0 of
        Inl e \<Rightarrow> Inl e
      | Inr q0 \<Rightarrow>
          (case f p1 of
             Inl e \<Rightarrow> Inl e
           | Inr q1 \<Rightarrow>
               if \<bar>q1\<bar> < \<bar>q0\<bar> then secant_iter maxiter f tol p1 q1 p0 q0 x0
               else secant_iter maxiter f tol p0 q0 p1 q1 x0))"

text \<open>The call made by \<^verbatim>\<open>iterate_pupil_ray\<close>: default \<^verbatim>\<open>maxiter=50\<close>, \<^verbatim>\<open>tol=1e-6\<close>.\<close>

definition scipy_newton :: solver where
  "scipy_newton = secant_newton 50 (1 / 1000000)"

definition seg_at :: "real \<Rightarrow> real \<Rightarrow> seg" where
  "seg_at x y = \<lparr>p = (x, y, 0)\<rparr>"

text \<open>
  Three interfaces; the ray height at interface 1 is ten times the pupil
  coordinate. With aperture checking the ray is blocked at interface 1 when its
  height there exceeds 5.
\<close>

definition lens_ray :: "vec2 \<Rightarrow> ray" where
  "lens_ray c = [seg_at 0 0, seg_at (10 * fst c) (10 * snd c), seg_at 0 0]"

definition lens_tracer :: tracer where
  "lens_tracer c check_apertures =
     (if check_apertures \<and> 5 < radial (p (lens_ray c ! 1))
      then Failed Blocked 1 (take 2 (lens_ray c))
      else Traced (lens_ray c))"

text \<open>The same lens, but a ray that touches the edge of interface 1 is blocked too.\<close>

definition edge_tracer :: tracer where
  "edge_tracer c check_apertures =
     (if check_apertures \<and> 5 \<le> radial (p (lens_ray c ! 1))
      then Failed Blocked 1 (take 2 (lens_ray c))
      else Traced (lens_ray c))"

definition lens_ifcs :: "ifc list" where
  "lens_ifcs =
     [\<lparr>max_aperture = 1, surface_od = 1\<rparr>,
      \<lparr>max_aperture = 5, surface_od = 5\<rparr>,
      \<lparr>max_aperture = 1, surface_od = 1\<rparr>]"

text \<open>
  A tracer engineered to oscillate: heights 10 and 20 times the coordinate at
  interfaces 1 and 2; with aperture checking the ray launched at 1 is stopped at
  interface 1 and the ray launched at 1/2 is stopped at interface 2.
\<close>

definition osc_ray :: "vec2 \<Rightarrow> ray" where
  "osc_ray c = [seg_at 0 0, seg_at (10 * fst c) (10 * snd c), seg_at (20 * fst c) (20 * snd c)]"

definition osc_tracer :: tracer where
  "osc_tracer c check_apertures =
     (if check_apertures \<and> fst c = 1 then Failed Blocked 1 (take 2 (osc_ray c))
      else if check_apertures \<and> fst c = 1 / 2 then Failed Blocked 2 (osc_ray c)
      else Traced (osc_ray c))"

definition osc_ifcs :: "ifc list" where
  "osc_ifcs =
     [\<lparr>max_aperture = 1, surface_od = 1\<rparr>,
      \<lparr>max_aperture = 5, surface_od = 5\<rparr>,
      \<lparr>max_aperture = 20, surface_od = 20\<rparr>]"

text \<open>A tracer whose ray undergoes total internal reflection at interface \<open>surf\<close>.\<close>

definition tir_tracer :: "nat \<Rightarrow> tracer" where
  "tir_tracer surf c check_apertures = Failed TIR surf (take (Suc surf) (lens_ray c))"

text \<open>A tracer whose ray misses interface \<open>surf\<close>: the partial ray stops before it.\<close>

definition miss_tracer :: "nat \<Rightarrow> tracer" where
  "miss_tracer surf c check_apertures = Failed Missed surf (take surf (lens_ray c))"

text \<open>A tracer that agrees with \<open>lens_tracer\<close> on the x axis only.\<close>

definition off_axis_tracer :: tracer where
  "off_axis_tracer c check_apertures =
     (if snd c = 0 then lens_tracer c check_apertures else Failed Missed 0 [])"

text \<open>
  Boundary rays of two fields over two interfaces: the rays of \<open>field_a\<close> reach
  both interfaces, the rays of \<open>field_b\<close> stop before the second one.
\<close>

definition field_a :: "ray list" where
  "field_a = [[seg_at 3 0, seg_at 2 0], [seg_at (- 1) 0, seg_at 1 0]]"

definition field_b :: "ray list" where
  "field_b = [[seg_at 4 0], [seg_at 0 0]]"

definition two_ifcs :: "ifc list" where
  "two_ifcs = [\<lparr>max_aperture = 1, surface_od = 9\<rparr>, \<lparr>max_aperture = 7, surface_od = 9\<rparr>]"

section \<open>Properties\<close>

subsection \<open>Evaluation lemmas\<close>

lemma radial_on_axis: "radial (a, 0, z) = \<bar>a\<bar>"
  by (simp add: radial_def)

lemma radial_nonneg: "0 \<le> radial v"
  by (simp add: radial_def)

lemma vig_loop_stop:
  "\<not> (still_iterating s \<and> iter_count s < m) \<Longrightarrow> vig_loop tr nw ifcs st xy m s = Inr s"
  by (subst vig_loop.simps) auto

lemma vig_loop_step:
  "still_iterating s \<Longrightarrow> iter_count s < m \<Longrightarrow> vig_step tr nw ifcs st xy s = Inr s'
    \<Longrightarrow> vig_loop tr nw ifcs st xy m s = vig_loop tr nw ifcs st xy m s'"
  by (subst vig_loop.simps) simp

lemma vig_loop_raise:
  "still_iterating s \<Longrightarrow> iter_count s < m \<Longrightarrow> vig_step tr nw ifcs st xy s = Inl e
    \<Longrightarrow> vig_loop tr nw ifcs st xy m s = Inl e"
  by (subst vig_loop.simps) simp

lemma radial_on_y_axis: "radial (0, b, z) = \<bar>b\<bar>"
  by (simp add: radial_def)

lemma lens_objective:
  "r_pupil_coordinate lens_tracer (Suc 0) AxisX 5 = (\<lambda>c. Inr (\<bar>10 * c\<bar> - 5))"
  by (rule ext)
     (simp add: r_pupil_coordinate_def lens_tracer_def lens_ray_def seg_at_def height_at_def
                item_def radial_on_axis)

lemma secant_lens_from_one:
  "secant_newton 50 (1 / 1000000) (\<lambda>c. Inr (\<bar>10 * c\<bar> - 5)) 1 = Inr (1 / 2, True)"
  by (simp add: secant_newton_def Let_def numeral_eq_Suc)

lemma secant_one_step_from_one:
  "secant_newton 1 (1 / 1000000) (\<lambda>c. Inr (\<bar>10 * c\<bar> - 5)) 1 = Inr (1 / 2, False)"
  by (simp add: secant_newton_def Let_def)

lemma secant_newton_raise_first:
  "f x0 = Inl e \<Longrightarrow> secant_newton maxiter tol f x0 = Inl e"
  by (simp add: secant_newton_def Let_def)

subsection \<open>The pupil-ray iteration\<close>

text \<open>
  C8. When the target interface index is undefined (\<^verbatim>\<open>indx is None\<close>, a floating
  stop), \<^verbatim>\<open>iterate_pupil_ray\<close> returns the pupil coordinate whose active component
  is the target radius and whose other component is 0. The equation holds for
  every tracer and every solver, also for those that raise on every call: neither
  is called, so no search and no trace takes place.
\<close>

theorem iterate_pupil_ray_floating_target:
  "iterate_pupil_ray tr newton None xy start_r0 r_target = Inr (set_axis (0, 0) xy r_target)
   \<and> get_axis (set_axis (0, 0) xy r_target) xy = r_target
   \<and> get_axis (set_axis (0, 0) xy r_target) (other_axis xy) = 0"
  by (cases xy) (simp_all add: iterate_pupil_ray_def)

text \<open>
  C9. The inactive pupil axis is held at 0. The coordinate that the objective
  builds from a candidate \<open>c\<close> has inactive component 0, and the objective reads
  the tracer only at such coordinates: two tracers that agree on all coordinates
  with inactive component 0 give the same objective value and the same result of
  \<^verbatim>\<open>iterate_pupil_ray\<close>, whatever they do elsewhere. Every coordinate returned by
  \<^verbatim>\<open>iterate_pupil_ray\<close>, from the search branch or from the floating-target
  branch, has inactive component 0.
\<close>

theorem inactive_axis_held_at_zero:
  assumes "\<forall>v. get_axis v (other_axis xy) = 0 \<longrightarrow> tr v False = tr' v False"
  shows "get_axis (set_axis (0, 0) xy c) (other_axis xy) = 0
       \<and> r_pupil_coordinate tr indx xy r_target c = r_pupil_coordinate tr' indx xy r_target c
       \<and> iterate_pupil_ray tr newton oi xy start r_target
           = iterate_pupil_ray tr' newton oi xy start r_target
       \<and> (\<forall>v. iterate_pupil_ray tr newton oi xy start r_target = Inr v
              \<longrightarrow> get_axis v (other_axis xy) = 0)"
proof -
  have pt: "get_axis (set_axis (0, 0) xy x) (other_axis xy) = 0" for x
    by (cases xy) simp_all
  have "tr (set_axis (0, 0) xy x) False = tr' (set_axis (0, 0) xy x) False" for x
    using assms pt [of x] by blast
  then have obj: "r_pupil_coordinate tr i xy r_target x = r_pupil_coordinate tr' i xy r_target x"
    for i x
    by (simp add: r_pupil_coordinate_def Let_def)
  then have "r_pupil_coordinate tr i xy r_target = r_pupil_coordinate tr' i xy r_target" for i
    by (rule ext)
  then have same: "iterate_pupil_ray tr newton oi xy start r_target
                 = iterate_pupil_ray tr' newton oi xy start r_target"
    by (cases oi) (simp_all add: iterate_pupil_ray_def)
  have zero: "get_axis v (other_axis xy) = 0"
    if "iterate_pupil_ray tr newton oi xy start r_target = Inr v" for v
    using that pt
    by (auto simp: iterate_pupil_ray_def Let_def split: option.splits sum.splits exn.splits)
  from pt obj same zero show ?thesis by blast
qed

theorem inactive_axis_held_at_zero_witness:
  "lens_tracer (0, 1) False \<noteq> off_axis_tracer (0, 1) False
   \<and> r_pupil_coordinate off_axis_tracer 1 AxisX 5 1 = Inr 5
   \<and> iterate_pupil_ray off_axis_tracer scipy_newton (Some 1) AxisX 1 5 = Inr (1 / 2, 0)
   \<and> get_axis (1 / 2, 0) (other_axis AxisX) = (0::real)"
proof -
  have h: "\<forall>v. get_axis v (other_axis AxisX) = 0 \<longrightarrow> lens_tracer v False = off_axis_tracer v False"
    by (simp add: off_axis_tracer_def)
  have d: "lens_tracer (0, 1) False \<noteq> off_axis_tracer (0, 1) False"
    by (simp add: off_axis_tracer_def lens_tracer_def)
  have it: "iterate_pupil_ray lens_tracer scipy_newton (Some 1) AxisX 1 5 = Inr (1 / 2, 0)"
    by (simp add: iterate_pupil_ray_def lens_objective scipy_newton_def secant_lens_from_one)
  have ob: "r_pupil_coordinate lens_tracer 1 AxisX 5 1 = Inr 5"
    by (simp add: lens_objective)
  from inactive_axis_held_at_zero
         [where xy = AxisX and tr = lens_tracer and tr' = off_axis_tracer and indx = 1
            and r_target = 5 and c = 1 and newton = scipy_newton and oi = "Some 1"
            and start = 1, OF h]
       d it ob
  show ?thesis by simp
qed

text \<open>
  C1, as stated, fails: a total internal reflection at the target interface itself
  (\<^verbatim>\<open>ray_tir.surf == indx\<close>) is not raised again. The handler of
  \<^verbatim>\<open>TraceTIRError\<close> tests \<^verbatim>\<open>surf < indx\<close>, the handler of
  \<^verbatim>\<open>TraceMissedSurfaceError\<close> tests \<^verbatim>\<open>surf <= indx\<close>: a reflected ray
  has reached the interface, a ray that missed it has not. Here the objective
  returns the height of the partial ray minus the target radius.
\<close>

theorem tir_at_target_not_reraised:
  "tir_tracer 1 (set_axis (0, 0) AxisX (1 / 2)) False = Failed TIR 1 (take 2 (lens_ray (1 / 2, 0)))
   \<and> r_pupil_coordinate (tir_tracer 1) 1 AxisX 5 (1 / 2) = Inr 0
   \<and> r_pupil_coordinate (tir_tracer 1) 1 AxisX 5 (1 / 2)
        \<noteq> Inl (TraceError TIR 1 (take 2 (lens_ray (1 / 2, 0))))"
  by (simp add: tir_tracer_def r_pupil_coordinate_def lens_ray_def seg_at_def height_at_def
                item_def radial_on_axis)

text \<open>
  C1, amended. When the trace of the objective fails at interface \<open>surf\<close> with
  the partial ray \<open>r\<close>: a missed surface with \<open>surf \<le> indx\<close> and a total internal
  reflection with \<open>surf < indx\<close> are raised again; a missed surface with
  \<open>indx < surf\<close> and a total internal reflection with \<open>indx \<le> surf\<close> are
  absorbed, and the objective is the value of \<open>height_at\<close> on the partial ray,
  which is the radial height of the partial ray at the target interface minus the
  target radius whenever the partial ray has an entry at that index.
\<close>

theorem r_pupil_coordinate_trace_failure:
  assumes "tr (set_axis (0, 0) xy c) False = Failed k surf r"
  shows "(k = Missed \<and> surf \<le> indx
            \<longrightarrow> r_pupil_coordinate tr indx xy r_target c = Inl (TraceError Missed surf r))
       \<and> (k = TIR \<and> surf < indx
            \<longrightarrow> r_pupil_coordinate tr indx xy r_target c = Inl (TraceError TIR surf r))
       \<and> (k = Missed \<and> indx < surf \<or> k = TIR \<and> indx \<le> surf
            \<longrightarrow> r_pupil_coordinate tr indx xy r_target c = height_at r indx r_target)
       \<and> (indx < length r
            \<longrightarrow> height_at r indx r_target = Inr (radial (p (r ! indx)) - r_target))"
  using assms by (auto simp: r_pupil_coordinate_def height_at_def item_def)

theorem r_pupil_coordinate_trace_failure_witness:
  "r_pupil_coordinate (miss_tracer 1) 1 AxisX 5 (1 / 2)
     = Inl (TraceError Missed 1 (take 1 (lens_ray (1 / 2, 0))))
   \<and> r_pupil_coordinate (tir_tracer 0) 1 AxisX 5 (1 / 2)
     = Inl (TraceError TIR 0 (take 1 (lens_ray (1 / 2, 0))))
   \<and> r_pupil_coordinate (miss_tracer 2) 1 AxisX 5 1 = Inr 5
   \<and> r_pupil_coordinate (tir_tracer 1) 1 AxisX 5 1 = Inr 5"
proof -
  have m1: "miss_tracer 1 (set_axis (0, 0) AxisX (1 / 2)) False
              = Failed Missed 1 (take 1 (lens_ray (1 / 2, 0)))"
    by (simp add: miss_tracer_def)
  have t0: "tir_tracer 0 (set_axis (0, 0) AxisX (1 / 2)) False
              = Failed TIR 0 (take 1 (lens_ray (1 / 2, 0)))"
    by (simp add: tir_tracer_def)
  have m2: "miss_tracer 2 (set_axis (0, 0) AxisX 1) False
              = Failed Missed 2 (take 2 (lens_ray (1, 0)))"
    by (simp add: miss_tracer_def)
  have t1: "tir_tracer 1 (set_axis (0, 0) AxisX 1) False
              = Failed TIR 1 (take 2 (lens_ray (1, 0)))"
    by (simp add: tir_tracer_def numeral_2_eq_2)
  have h: "radial (p (take 2 (lens_ray (1, 0)) ! 1)) - 5 = 5"
    by (simp add: lens_ray_def seg_at_def radial_on_axis)
  have l: "(1::nat) < length (take 2 (lens_ray (1, 0)))"
    by (simp add: lens_ray_def)
  from r_pupil_coordinate_trace_failure
         [where tr = "miss_tracer 1" and xy = AxisX and c = "1 / 2" and indx = 1
            and r_target = 5, OF m1]
       r_pupil_coordinate_trace_failure
         [where tr = "tir_tracer 0" and xy = AxisX and c = "1 / 2" and indx = 1
            and r_target = 5, OF t0]
       r_pupil_coordinate_trace_failure
         [where tr = "miss_tracer 2" and xy = AxisX and c = 1 and indx = 1
            and r_target = 5, OF m2]
       r_pupil_coordinate_trace_failure
         [where tr = "tir_tracer 1" and xy = AxisX and c = 1 and indx = 1
            and r_target = 5, OF t1]
       h l
  show ?thesis by simp
qed

text \<open>
  The handler of \<^verbatim>\<open>RuntimeError\<close> reads a name that is not bound. It is only
  entered when the solver itself raises \<^verbatim>\<open>RuntimeError\<close>, which a solver called
  with \<^verbatim>\<open>disp=False\<close> does not do on non-convergence.
\<close>

lemma iterate_pupil_ray_runtime_error:
  "newton (r_pupil_coordinate tr indx xy r_target) start = Inl RuntimeError
   \<Longrightarrow> iterate_pupil_ray tr newton (Some indx) xy start r_target = Inl UnboundLocalError"
  by (simp add: iterate_pupil_ray_def)

text \<open>
  C6. \<^verbatim>\<open>iterate_pupil_ray\<close> does not pass a trace failure or the solver's
  non-convergence on to its caller. The solver is called with \<^verbatim>\<open>disp=False\<close>
  and \<^verbatim>\<open>full_output=True\<close>, so an exhausted iteration budget is a returned
  estimate with \<^verbatim>\<open>converged = False\<close>: whatever the flag, the returned estimate
  becomes the active-axis coordinate. When a trace failure raised by the objective
  comes out of the solver, the active-axis coordinate is 0. No result of
  \<^verbatim>\<open>iterate_pupil_ray\<close> is a trace failure.
\<close>

theorem iterate_pupil_ray_absorbs_failures:
  "(newton (r_pupil_coordinate tr indx xy r_target) start = Inr (est, converged)
      \<longrightarrow> iterate_pupil_ray tr newton (Some indx) xy start r_target
            = Inr (set_axis (0, 0) xy est))
   \<and> (newton (r_pupil_coordinate tr indx xy r_target) start = Inl (TraceError k surf r)
      \<longrightarrow> iterate_pupil_ray tr newton (Some indx) xy start r_target
            = Inr (set_axis (0, 0) xy 0))
   \<and> iterate_pupil_ray tr newton oi xy start r_target \<noteq> Inl (TraceError k surf r)"
  by (auto simp: iterate_pupil_ray_def Let_def split: option.splits sum.splits exn.splits)

theorem iterate_pupil_ray_absorbs_failures_witness:
  "secant_newton 1 (1 / 1000000) (r_pupil_coordinate lens_tracer 1 AxisX 5) 1 = Inr (1 / 2, False)
   \<and> iterate_pupil_ray lens_tracer (secant_newton 1 (1 / 1000000)) (Some 1) AxisX 1 5
       = Inr (1 / 2, 0)
   \<and> r_pupil_coordinate (miss_tracer 1) 1 AxisX 5 1
       = Inl (TraceError Missed 1 (take 1 (lens_ray (1, 0))))
   \<and> scipy_newton (r_pupil_coordinate (miss_tracer 1) 1 AxisX 5) 1
       = Inl (TraceError Missed 1 (take 1 (lens_ray (1, 0))))
   \<and> iterate_pupil_ray (miss_tracer 1) scipy_newton (Some 1) AxisX 1 5 = Inr (0, 0)"
proof -
  have a: "secant_newton 1 (1 / 1000000) (r_pupil_coordinate lens_tracer 1 AxisX 5) 1
             = Inr (1 / 2, False)"
    unfolding One_nat_def lens_objective
    by (rule secant_one_step_from_one [unfolded One_nat_def])
  have b: "r_pupil_coordinate (miss_tracer 1) 1 AxisX 5 1
             = Inl (TraceError Missed 1 (take 1 (lens_ray (1, 0))))"
    by (simp add: r_pupil_coordinate_def miss_tracer_def)
  have c: "scipy_newton (r_pupil_coordinate (miss_tracer 1) 1 AxisX 5) 1
             = Inl (TraceError Missed 1 (take 1 (lens_ray (1, 0))))"
    unfolding scipy_newton_def by (rule secant_newton_raise_first) (rule b)
  from iterate_pupil_ray_absorbs_failures
         [where newton = "secant_newton 1 (1 / 1000000)" and tr = lens_tracer and indx = 1
            and xy = AxisX and r_target = 5 and start = 1 and est = "1 / 2"
            and converged = False]
       iterate_pupil_ray_absorbs_failures
         [where newton = scipy_newton and tr = "miss_tracer 1" and indx = 1
            and xy = AxisX and r_target = 5 and start = 1 and k = Missed and surf = 1
            and r = "take 1 (lens_ray (1, 0))"]
       a b c
  show ?thesis by simp
qed

subsection \<open>The search for the vignetted ray\<close>

text \<open>Runs of the synthetic lens.\<close>

lemma lens_trace_blocked:
  "5 < \<bar>10 * x\<bar> \<Longrightarrow> lens_tracer (x, 0) True = Failed Blocked 1 (take 2 (lens_ray (x, 0)))"
  by (simp add: lens_tracer_def lens_ray_def seg_at_def radial_on_axis)

lemma lens_trace_clear:
  "\<bar>10 * x\<bar> \<le> 5 \<Longrightarrow> lens_tracer (x, 0) True = Traced (lens_ray (x, 0))"
  by (simp add: lens_tracer_def lens_ray_def seg_at_def radial_on_axis)

lemma lens_iterate:
  "iterate_pupil_ray lens_tracer scipy_newton (Some (Suc 0)) AxisX 1 5 = Inr (1 / 2, 0)"
  by (simp add: iterate_pupil_ray_def lens_objective scipy_newton_def secant_lens_from_one)

lemma lens_aim:
  "rel_p1 s = (1, 0) \<Longrightarrow>
   aim_at lens_tracer scipy_newton lens_ifcs AxisX (Suc 0) s
     = Inr (s\<lparr>rel_p1 := (1 / 2, 0), still_iterating := True, last_indx := Some (Suc 0)\<rparr>)"
  by (simp add: aim_at_def item_def lens_ifcs_def lens_iterate)

lemma lens_run:
  "vig_loop lens_tracer scipy_newton lens_ifcs None AxisX 10 (init_state (1, 0))
     = Inr \<lparr>rel_p1 = (1 / 2, 0), still_iterating = False, last_indx = Some 1,
            iter_count = 2, ray_pkg = Some (lens_ray (1 / 2, 0))\<rparr>"
proof -
  let ?s1 = "\<lparr>rel_p1 = (1 / 2, 0), still_iterating = True, last_indx = Some (Suc 0),
              iter_count = 1, ray_pkg = Some (take 2 (lens_ray (1, 0)))\<rparr>"
  let ?s2 = "\<lparr>rel_p1 = (1 / 2, 0), still_iterating = False, last_indx = Some (Suc 0),
              iter_count = 2, ray_pkg = Some (lens_ray (1 / 2, 0))\<rparr>"
  have a1: "vig_step lens_tracer scipy_newton lens_ifcs None AxisX (init_state (1, 0)) = Inr ?s1"
    by (simp add: vig_step_def init_state_def lens_trace_blocked lens_aim)
  have a2: "vig_step lens_tracer scipy_newton lens_ifcs None AxisX ?s1 = Inr ?s2"
    by (simp add: vig_step_def lens_trace_clear)
  have "vig_loop lens_tracer scipy_newton lens_ifcs None AxisX 10 (init_state (1, 0))
          = vig_loop lens_tracer scipy_newton lens_ifcs None AxisX 10 ?s1"
    by (rule vig_loop_step [OF _ _ a1]) (simp_all add: init_state_def)
  also have "\<dots> = vig_loop lens_tracer scipy_newton lens_ifcs None AxisX 10 ?s2"
    by (rule vig_loop_step [OF _ _ a2]) simp_all
  also have "\<dots> = Inr ?s2"
    by (rule vig_loop_stop) simp
  finally show ?thesis by simp
qed

lemma edge_trace_blocked:
  "5 \<le> \<bar>10 * x\<bar> \<Longrightarrow> edge_tracer (x, 0) True = Failed Blocked 1 (take 2 (lens_ray (x, 0)))"
  by (simp add: edge_tracer_def lens_ray_def seg_at_def radial_on_axis)

lemma edge_objective:
  "r_pupil_coordinate edge_tracer (Suc 0) AxisX 5 = (\<lambda>c. Inr (\<bar>10 * c\<bar> - 5))"
  by (rule ext)
     (simp add: r_pupil_coordinate_def edge_tracer_def lens_ray_def seg_at_def height_at_def
                item_def radial_on_axis)

lemma edge_first_step:
  "vig_step edge_tracer scipy_newton lens_ifcs (Some 1) AxisX (init_state (1, 0))
     = Inr \<lparr>rel_p1 = (1 / 2, 0), still_iterating = True, last_indx = Some 1,
            iter_count = 1, ray_pkg = Some (take 2 (lens_ray (1, 0)))\<rparr>"
  by (simp add: vig_step_def init_state_def edge_trace_blocked aim_at_def item_def lens_ifcs_def
                iterate_pupil_ray_def edge_objective scipy_newton_def secant_lens_from_one)

text \<open>
  C3. Whenever \<^verbatim>\<open>calc_vignetted_ray\<close> returns, the returned vignetting factor
  is exactly \<open>1 - c / c0\<close>, where \<open>c0\<close> is the active component of the starting
  direction and \<open>c\<close> the active component of the coordinate \<^verbatim>\<open>rel_p1\<close> with
  which the loop ended (for \<open>c0 = 0\<close> this quotient is not a finite number); the
  other two results are the last limiting index and the ray package of that final
  state.
\<close>

theorem vignetting_factor_formula:
  assumes "calc_vignetted_ray tr newton ifcs stop_surface xy start_dir max_iter_count
             = Inr (vig, li, r)"
  shows "\<exists>s. vig_loop tr newton ifcs stop_surface xy max_iter_count (init_state start_dir) = Inr s
           \<and> vig = (if get_axis start_dir xy = 0 then None
                    else Some (1 - get_axis (rel_p1 s) xy / get_axis start_dir xy))
           \<and> li = last_indx s \<and> ray_pkg s = Some r"
proof -
  from assms obtain s where
    loop: "vig_loop tr newton ifcs stop_surface xy max_iter_count (init_state start_dir) = Inr s"
    and ret: "vig_return start_dir xy s = Inr (vig, li, r)"
    by (auto simp: calc_vignetted_ray_def split: sum.splits)
  from ret have parts: "ray_pkg s = Some r" "li = last_indx s" "vig = vig_factor start_dir xy s"
    by (auto simp: vig_return_def Let_def split: option.splits)
  have "vig_factor start_dir xy s
          = (if get_axis start_dir xy = 0 then None
             else Some (1 - get_axis (rel_p1 s) xy / get_axis start_dir xy))"
    by (simp add: vig_factor_def np_divide_def)
  with loop parts show ?thesis by blast
qed

theorem vignetting_factor_formula_witness:
  "calc_vignetted_ray lens_tracer scipy_newton lens_ifcs None AxisX (1, 0) 10
     = Inr (Some (1 - (1 / 2) / 1), Some 1, lens_ray (1 / 2, 0))
   \<and> get_axis (1, 0) AxisX \<noteq> (0::real)"
proof -
  have run: "calc_vignetted_ray lens_tracer scipy_newton lens_ifcs None AxisX (1, 0) 10
               = Inr (Some (1 / 2), Some 1, lens_ray (1 / 2, 0))"
    by (simp add: calc_vignetted_ray_def lens_run vig_return_def vig_factor_def np_divide_def)
  have nz: "get_axis (1, 0) AxisX \<noteq> (0::real)" by simp
  from vignetting_factor_formula [OF run] run nz show ?thesis
    by (simp add: lens_run)
qed

text \<open>
  C10. When the active component of the starting direction is 0, the division
  \<^verbatim>\<open>rel_p1[xy]/start_dir[xy]\<close>, which is made on every return, is a division by
  zero: the factor computed from any final state is not a finite number, and no
  call returns a finite vignetting factor.
\<close>

theorem zero_start_component_no_factor:
  assumes "get_axis start_dir xy = 0"
  shows "vig_factor start_dir xy s = None
       \<and> calc_vignetted_ray tr newton ifcs stop_surface xy start_dir max_iter_count
           \<noteq> Inr (Some v, li, r)"
  using assms
  by (auto simp: calc_vignetted_ray_def vig_return_def vig_factor_def np_divide_def Let_def
           split: sum.splits option.splits)

theorem zero_start_component_no_factor_witness:
  "get_axis (0, 1 / 10) AxisX = (0::real)
   \<and> calc_vignetted_ray lens_tracer scipy_newton lens_ifcs None AxisX (0, 1 / 10) 10
       = Inr (None, None, lens_ray (0, 1 / 10))
   \<and> calc_vignetted_ray lens_tracer scipy_newton lens_ifcs None AxisX (0, 1 / 10) 10
       \<noteq> Inr (Some 0, None, lens_ray (0, 1 / 10))"
proof -
  let ?s1 = "\<lparr>rel_p1 = (0, 1 / 10), still_iterating = False, last_indx = None,
              iter_count = 1, ray_pkg = Some (lens_ray (0, 1 / 10))\<rparr>"
  have z: "get_axis (0, 1 / 10) AxisX = (0::real)" by simp
  have t: "lens_tracer (0, 1 / 10) True = Traced (lens_ray (0, 1 / 10))"
    by (simp add: lens_tracer_def lens_ray_def seg_at_def radial_on_y_axis)
  have a1: "vig_step lens_tracer scipy_newton lens_ifcs None AxisX (init_state (0, 1 / 10))
              = Inr ?s1"
    by (simp add: vig_step_def init_state_def t)
  have "vig_loop lens_tracer scipy_newton lens_ifcs None AxisX 10 (init_state (0, 1 / 10))
          = vig_loop lens_tracer scipy_newton lens_ifcs None AxisX 10 ?s1"
    by (rule vig_loop_step [OF _ _ a1]) (simp_all add: init_state_def)
  also have "\<dots> = Inr ?s1"
    by (rule vig_loop_stop) simp
  finally have run:
    "calc_vignetted_ray lens_tracer scipy_newton lens_ifcs None AxisX (0, 1 / 10) 10
       = Inr (None, None, lens_ray (0, 1 / 10))"
    by (simp add: calc_vignetted_ray_def vig_return_def vig_factor_def np_divide_def)
  from zero_start_component_no_factor
         [where start_dir = "(0, 1 / 10)" and xy = AxisX and tr = lens_tracer
            and newton = scipy_newton and ifcs = lens_ifcs and stop_surface = None
            and max_iter_count = 10 and v = 0 and li = None
            and r = "lens_ray (0, 1 / 10)", OF z]
       z run
  show ?thesis by simp
qed

text \<open>
  C4. In a pass of the loop whose trace fails at the interface \<open>S\<close> that the
  previous pass recorded as \<^verbatim>\<open>last_indx\<close>, the search stops: the loop ends after
  this pass with the coordinate unchanged, the failed ray as ray package and
  \<^verbatim>\<open>last_indx = S\<close>, and the function returns \<open>S\<close> as limiting index. The
  result is the same for every solver, so \<^verbatim>\<open>iterate_pupil_ray\<close> is not called
  again.
\<close>

theorem same_surface_twice_stops:
  assumes "still_iterating s" and "iter_count s < max_iter_count"
    and "last_indx s = Some S" and "tr (rel_p1 s) True = Failed k S r"
  shows "vig_loop tr newton ifcs stop_surface xy max_iter_count s
           = Inr (s\<lparr>iter_count := iter_count s + 1, ray_pkg := Some r, still_iterating := False\<rparr>)
       \<and> vig_return start_dir xy
            (s\<lparr>iter_count := iter_count s + 1, ray_pkg := Some r, still_iterating := False\<rparr>)
           = Inr (vig_factor start_dir xy s, Some S, r)"
proof -
  let ?s' = "s\<lparr>iter_count := iter_count s + 1, ray_pkg := Some r, still_iterating := False\<rparr>"
  have step: "vig_step tr newton ifcs stop_surface xy s = Inr ?s'"
    using assms(3,4) by (simp add: vig_step_def)
  have "vig_loop tr newton ifcs stop_surface xy max_iter_count s
          = vig_loop tr newton ifcs stop_surface xy max_iter_count ?s'"
    using assms(1,2) step by (rule vig_loop_step)
  also have "\<dots> = Inr ?s'"
    by (rule vig_loop_stop) simp
  finally have loop: "vig_loop tr newton ifcs stop_surface xy max_iter_count s = Inr ?s'" .
  have ret: "vig_return start_dir xy ?s' = Inr (vig_factor start_dir xy s, Some S, r)"
    using assms(3) by (simp add: vig_return_def vig_factor_def)
  from loop ret show ?thesis by simp
qed

theorem same_surface_twice_stops_witness:
  "vig_step edge_tracer scipy_newton lens_ifcs (Some 1) AxisX (init_state (1, 0))
     = Inr \<lparr>rel_p1 = (1 / 2, 0), still_iterating = True, last_indx = Some 1,
            iter_count = 1, ray_pkg = Some (take 2 (lens_ray (1, 0)))\<rparr>
   \<and> edge_tracer (1 / 2, 0) True = Failed Blocked 1 (take 2 (lens_ray (1 / 2, 0)))
   \<and> vig_loop edge_tracer scipy_newton lens_ifcs (Some 1) AxisX 10
        \<lparr>rel_p1 = (1 / 2, 0), still_iterating = True, last_indx = Some 1,
         iter_count = 1, ray_pkg = Some (take 2 (lens_ray (1, 0)))\<rparr>
     = Inr \<lparr>rel_p1 = (1 / 2, 0), still_iterating = False, last_indx = Some 1,
            iter_count = 2, ray_pkg = Some (take 2 (lens_ray (1 / 2, 0)))\<rparr>
   \<and> calc_vignetted_ray edge_tracer scipy_newton lens_ifcs (Some 1) AxisX (1, 0) 10
     = Inr (Some (1 / 2), Some 1, take 2 (lens_ray (1 / 2, 0)))"
proof -
  let ?s1 = "\<lparr>rel_p1 = (1 / 2, 0), still_iterating = True, last_indx = Some 1,
              iter_count = 1, ray_pkg = Some (take 2 (lens_ray (1, 0)))\<rparr>"
  have t: "edge_tracer (1 / 2, 0) True = Failed Blocked 1 (take 2 (lens_ray (1 / 2, 0)))"
    by (simp add: edge_trace_blocked)
  have t': "edge_tracer (rel_p1 ?s1) True = Failed Blocked 1 (take 2 (lens_ray (1 / 2, 0)))"
    using t by simp
  have h1: "still_iterating ?s1" and h2: "iter_count ?s1 < 10" and h3: "last_indx ?s1 = Some 1"
    by simp_all
  note inst = same_surface_twice_stops
      [where tr = edge_tracer and newton = scipy_newton and ifcs = lens_ifcs
         and stop_surface = "Some 1" and xy = AxisX and start_dir = "(1, 0)",
       OF h1 h2 h3 t']
  have first: "vig_loop edge_tracer scipy_newton lens_ifcs (Some 1) AxisX 10 (init_state (1, 0))
                 = vig_loop edge_tracer scipy_newton lens_ifcs (Some 1) AxisX 10 ?s1"
    by (rule vig_loop_step [OF _ _ edge_first_step]) (simp_all add: init_state_def)
  from inst first edge_first_step t show ?thesis
    by (simp add: calc_vignetted_ray_def vig_factor_def np_divide_def)
qed

text \<open>
  C5, as stated, fails: with a floating stop (\<^verbatim>\<open>sm.stop_surface is None\<close>) the
  search still reacts to a ray that is blocked. Here the first trace is blocked at
  interface 1, the coordinate is moved to 1/2 and the vignetting factor is 1/2.
\<close>

theorem floating_stop_blocked_start:
  "lens_tracer (1, 0) True = Failed Blocked 1 (take 2 (lens_ray (1, 0)))
   \<and> vig_loop lens_tracer scipy_newton lens_ifcs None AxisX 10 (init_state (1, 0))
       = Inr \<lparr>rel_p1 = (1 / 2, 0), still_iterating = False, last_indx = Some 1,
              iter_count = 2, ray_pkg = Some (lens_ray (1 / 2, 0))\<rparr>
   \<and> calc_vignetted_ray lens_tracer scipy_newton lens_ifcs None AxisX (1, 0) 10
       = Inr (Some (1 / 2), Some 1, lens_ray (1 / 2, 0))
   \<and> calc_vignetted_ray lens_tracer scipy_newton lens_ifcs None AxisX (1, 0) 10
       \<noteq> Inr (Some 0, None, lens_ray (1 / 2, 0))"
  by (simp add: lens_trace_blocked calc_vignetted_ray_def lens_run vig_return_def vig_factor_def
                np_divide_def)

text \<open>
  C5, amended. With a floating stop, when the trace from the starting direction
  succeeds (and the loop runs at least once, and the active component of the
  starting direction is not zero), the search stops after this one trace: the
  coordinate is the starting direction, no limiting index is recorded and the
  vignetting factor is exactly 0.
\<close>

theorem floating_stop_clear_start:
  assumes "tr start_dir True = Traced r" and "0 < max_iter_count"
    and "get_axis start_dir xy \<noteq> 0"
  shows "vig_loop tr newton ifcs None xy max_iter_count (init_state start_dir)
           = Inr \<lparr>rel_p1 = start_dir, still_iterating = False, last_indx = None,
                  iter_count = 1, ray_pkg = Some r\<rparr>
       \<and> calc_vignetted_ray tr newton ifcs None xy start_dir max_iter_count
           = Inr (Some 0, None, r)"
proof -
  let ?s' = "\<lparr>rel_p1 = start_dir, still_iterating = False, last_indx = None,
              iter_count = 1, ray_pkg = Some r\<rparr>"
  have step: "vig_step tr newton ifcs None xy (init_state start_dir) = Inr ?s'"
    using assms(1) by (simp add: vig_step_def init_state_def)
  have "vig_loop tr newton ifcs None xy max_iter_count (init_state start_dir)
          = vig_loop tr newton ifcs None xy max_iter_count ?s'"
    using assms(2) by (intro vig_loop_step [OF _ _ step]) (simp_all add: init_state_def)
  also have "\<dots> = Inr ?s'"
    by (rule vig_loop_stop) simp
  finally have loop: "vig_loop tr newton ifcs None xy max_iter_count (init_state start_dir)
                        = Inr ?s'" .
  then show ?thesis
    using assms(3)
    by (simp add: calc_vignetted_ray_def vig_return_def vig_factor_def np_divide_def)
qed

theorem floating_stop_clear_start_witness:
  "lens_tracer (1 / 2, 0) True = Traced (lens_ray (1 / 2, 0))
   \<and> vig_loop lens_tracer scipy_newton lens_ifcs None AxisX 10 (init_state (1 / 2, 0))
       = Inr \<lparr>rel_p1 = (1 / 2, 0), still_iterating = False, last_indx = None,
              iter_count = 1, ray_pkg = Some (lens_ray (1 / 2, 0))\<rparr>
   \<and> calc_vignetted_ray lens_tracer scipy_newton lens_ifcs None AxisX (1 / 2, 0) 10
       = Inr (Some 0, None, lens_ray (1 / 2, 0))"
proof -
  have t: "lens_tracer (1 / 2, 0) True = Traced (lens_ray (1 / 2, 0))"
    by (simp add: lens_trace_clear)
  have m: "(0::int) < 10" by simp
  have nz: "get_axis (1 / 2, 0) AxisX \<noteq> (0::real)" by simp
  from floating_stop_clear_start
         [where tr = lens_tracer and newton = scipy_newton and ifcs = lens_ifcs
            and xy = AxisX, OF t m nz] t
  show ?thesis by simp
qed

subsection \<open>The bound on the number of passes\<close>

text \<open>
  Invariants of the loop: the counter only grows, it does not pass the bound, and a
  ray package is bound after the first pass.
\<close>

lemma aim_at_fields:
  "aim_at tr nw ifcs xy i s = Inr s' \<Longrightarrow>
     iter_count s' = iter_count s \<and> ray_pkg s' = ray_pkg s \<and> still_iterating s'"
  by (auto simp: aim_at_def split: sum.splits)

lemma vig_step_fields:
  "vig_step tr nw ifcs st xy s = Inr s' \<Longrightarrow>
     iter_count s' = iter_count s + 1 \<and> ray_pkg s' \<noteq> None"
  by (auto simp: vig_step_def Let_def dest!: aim_at_fields
           split: trace_outcome.splits if_splits option.splits)

lemma vig_loop_invariant:
  "vig_loop tr nw ifcs st xy m s = Inr s' \<Longrightarrow>
     iter_count s \<le> iter_count s'
     \<and> (iter_count s \<le> m \<longrightarrow> iter_count s' \<le> m)
     \<and> (ray_pkg s \<noteq> None \<longrightarrow> ray_pkg s' \<noteq> None)
     \<and> (still_iterating s \<and> iter_count s < m \<longrightarrow> iter_count s < iter_count s' \<and> ray_pkg s' \<noteq> None)"
proof (induction tr nw ifcs st xy m s rule: vig_loop.induct)
  case (1 tr nw ifcs st xy m s)
  show ?case
  proof (cases "still_iterating s \<and> iter_count s < m")
    case False
    with "1.prems" have "s' = s"
      by (simp add: vig_loop_stop)
    with False show ?thesis by auto
  next
    case True
    show ?thesis
    proof (cases "vig_step tr nw ifcs st xy s")
      case (Inl e)
      with True "1.prems" show ?thesis
        by (simp add: vig_loop_raise)
    next
      case (Inr t)
      with True "1.prems" have loop: "vig_loop tr nw ifcs st xy m t = Inr s'"
        by (simp add: vig_loop_step)
      from Inr have t: "iter_count t = iter_count s + 1" "ray_pkg t \<noteq> None"
        using vig_step_fields by blast+
      from "1.IH" [OF True Inr loop] t True show ?thesis
        by auto
    qed
  qed
qed

text \<open>
  A sufficient condition for a call in which no exception escapes from a pass:
  every interface index reported by the tracer and the stop index exist in the
  interface list, and the pupil-ray iteration returns.
\<close>

lemma aim_at_returns:
  assumes "i < length ifcs"
    and "\<forall>j c rt. j < length ifcs \<longrightarrow> (\<exists>v. iterate_pupil_ray tr nw (Some j) xy c rt = Inr v)"
  shows "\<exists>s'. aim_at tr nw ifcs xy i s = Inr s'"
proof -
  from assms obtain v where
    "iterate_pupil_ray tr nw (Some i) xy (get_axis (rel_p1 s) xy) (surface_od (ifcs ! i)) = Inr v"
    by blast
  with assms(1) show ?thesis
    by (simp add: aim_at_def item_def)
qed

lemma vig_step_returns:
  assumes "\<forall>c k i r. tr c True = Failed k i r \<longrightarrow> i < length ifcs"
    and "\<forall>i. st = Some i \<longrightarrow> i < length ifcs"
    and "\<forall>j c rt. j < length ifcs \<longrightarrow> (\<exists>v. iterate_pupil_ray tr nw (Some j) xy c rt = Inr v)"
  shows "\<exists>s'. vig_step tr nw ifcs st xy s = Inr s'"
proof (cases "tr (rel_p1 s) True")
  case (Traced r)
  then show ?thesis
    using assms(2) aim_at_returns [OF _ assms(3)]
    by (cases st) (auto simp: vig_step_def Let_def)
next
  case (Failed k i r)
  with assms(1) have "i < length ifcs" by blast
  with Failed show ?thesis
    using aim_at_returns [OF _ assms(3)]
    by (auto simp: vig_step_def Let_def)
qed

lemma vig_loop_returns:
  assumes "\<forall>c k i r. tr c True = Failed k i r \<longrightarrow> i < length ifcs"
    and "\<forall>i. st = Some i \<longrightarrow> i < length ifcs"
    and "\<forall>j c rt. j < length ifcs \<longrightarrow> (\<exists>v. iterate_pupil_ray tr nw (Some j) xy c rt = Inr v)"
  shows "\<exists>s'. vig_loop tr nw ifcs st xy m s = Inr s'"
  using assms
proof (induction tr nw ifcs st xy m s rule: vig_loop.induct)
  case (1 tr nw ifcs st xy m s)
  show ?case
  proof (cases "still_iterating s \<and> iter_count s < m")
    case False
    then show ?thesis by (simp add: vig_loop_stop)
  next
    case True
    from vig_step_returns [OF "1.prems"] obtain t where t: "vig_step tr nw ifcs st xy s = Inr t"
      by blast
    from "1.IH" [OF True t "1.prems"] obtain s' where "vig_loop tr nw ifcs st xy m t = Inr s'"
      by blast
    with True t show ?thesis
      by (simp add: vig_loop_step)
  qed
qed

lemma calc_vignetted_ray_returns:
  assumes "0 < max_iter_count"
    and "\<forall>c k i r. tr c True = Failed k i r \<longrightarrow> i < length ifcs"
    and "\<forall>i. stop_surface = Some i \<longrightarrow> i < length ifcs"
    and "\<forall>j c rt. j < length ifcs
           \<longrightarrow> (\<exists>v. iterate_pupil_ray tr newton (Some j) xy c rt = Inr v)"
  shows "\<exists>s r. vig_loop tr newton ifcs stop_surface xy max_iter_count (init_state start_dir) = Inr s
           \<and> 1 \<le> iter_count s \<and> iter_count s \<le> max_iter_count
           \<and> ray_pkg s = Some r
           \<and> calc_vignetted_ray tr newton ifcs stop_surface xy start_dir max_iter_count
               = Inr (vig_factor start_dir xy s, last_indx s, r)"
proof -
  from vig_loop_returns [OF assms(2,3,4)] obtain s where
    loop: "vig_loop tr newton ifcs stop_surface xy max_iter_count (init_state start_dir) = Inr s"
    by blast
  from vig_loop_invariant [OF loop] assms(1)
  have cnt: "1 \<le> iter_count s" "iter_count s \<le> max_iter_count" and pkg: "ray_pkg s \<noteq> None"
    by (simp_all add: init_state_def)
  from pkg obtain r where r: "ray_pkg s = Some r" by blast
  with loop have "calc_vignetted_ray tr newton ifcs stop_surface xy start_dir max_iter_count
                    = Inr (vig_factor start_dir xy s, last_indx s, r)"
    by (simp add: calc_vignetted_ray_def vig_return_def)
  with loop cnt r show ?thesis by blast
qed

text \<open>A run of the oscillating tracer.\<close>

lemma vig_loop_unfold:
  "still_iterating s \<Longrightarrow> iter_count s < m \<Longrightarrow>
   vig_loop tr nw ifcs st xy m s
     = (case vig_step tr nw ifcs st xy s of
          Inl e \<Rightarrow> Inl e
        | Inr s' \<Rightarrow> vig_loop tr nw ifcs st xy m s')"
  by (subst vig_loop.simps) simp

lemma osc_objective_one:
  "r_pupil_coordinate osc_tracer (Suc 0) AxisX 5 = (\<lambda>c. Inr (\<bar>10 * c\<bar> - 5))"
  by (rule ext)
     (simp add: r_pupil_coordinate_def osc_tracer_def height_at_def item_def osc_ray_def
                seg_at_def radial_on_axis)

lemma osc_objective_two:
  "r_pupil_coordinate osc_tracer 2 AxisX 20 = (\<lambda>c. Inr (\<bar>20 * c\<bar> - 20))"
  by (rule ext)
     (simp add: r_pupil_coordinate_def osc_tracer_def height_at_def item_def osc_ray_def
                seg_at_def radial_on_axis)

lemma secant_osc_from_half:
  "secant_newton 50 (1 / 1000000) (\<lambda>c. Inr (\<bar>20 * c\<bar> - 20)) (1 / 2) = Inr (1, True)"
  by (simp add: secant_newton_def Let_def numeral_eq_Suc)

lemma osc_step_at_one:
  "rel_p1 s = (1, 0) \<Longrightarrow> last_indx s \<noteq> Some (Suc 0) \<Longrightarrow>
   vig_step osc_tracer scipy_newton osc_ifcs None AxisX s
     = Inr (s\<lparr>iter_count := iter_count s + 1, ray_pkg := Some (take 2 (osc_ray (1, 0))),
              rel_p1 := (1 / 2, 0), still_iterating := True, last_indx := Some (Suc 0)\<rparr>)"
  by (simp add: vig_step_def osc_tracer_def aim_at_def item_def osc_ifcs_def
                iterate_pupil_ray_def osc_objective_one scipy_newton_def secant_lens_from_one)

lemma osc_step_at_half:
  "rel_p1 s = (1 / 2, 0) \<Longrightarrow> last_indx s \<noteq> Some 2 \<Longrightarrow>
   vig_step osc_tracer scipy_newton osc_ifcs None AxisX s
     = Inr (s\<lparr>iter_count := iter_count s + 1, ray_pkg := Some (osc_ray (1 / 2, 0)),
              rel_p1 := (1, 0), still_iterating := True, last_indx := Some 2\<rparr>)"
  by (simp add: vig_step_def osc_tracer_def aim_at_def item_def osc_ifcs_def
                iterate_pupil_ray_def osc_objective_two scipy_newton_def secant_osc_from_half)

lemma osc_run:
  "vig_loop osc_tracer scipy_newton osc_ifcs None AxisX 10 (init_state (1, 0))
     = Inr \<lparr>rel_p1 = (1, 0), still_iterating = True, last_indx = Some 2,
            iter_count = 10, ray_pkg = Some (osc_ray (1 / 2, 0))\<rparr>"
  by (simp add: init_state_def vig_loop_unfold osc_step_at_one osc_step_at_half vig_loop_stop)

text \<open>
  C2, as stated, fails for a bound that allows no pass at all: with
  \<^verbatim>\<open>max_iter_count = 0\<close> the loop body is never entered, \<^verbatim>\<open>ray_pkg\<close> is never
  bound, and the \<^verbatim>\<open>return\<close> statement raises \<^verbatim>\<open>UnboundLocalError\<close>.
\<close>

theorem zero_bound_unbound_ray_pkg:
  "calc_vignetted_ray lens_tracer scipy_newton lens_ifcs None AxisX (1, 0) 0
     = Inl UnboundLocalError"
  by (simp add: calc_vignetted_ray_def vig_loop_stop init_state_def vig_return_def)

text \<open>
  C2, amended. For \<^verbatim>\<open>max_iter_count \<ge> 1\<close>: in every call in which no exception
  escapes from within a pass, the loop makes at least one and at most
  \<^verbatim>\<open>max_iter_count\<close> passes and the function returns, without an exception, the
  vignetting factor of the coordinate last reached, also when the loop ended
  because the bound was reached; and the function raises an exception only when a
  pass of the loop raised it. The witness is the tracer that makes the limiting
  interface alternate between 1 and 2 on every pass: the loop ends after exactly
  10 passes, still iterating.
\<close>

theorem calc_vignetted_ray_iteration_bound:
  assumes "0 < max_iter_count"
  shows "(vig_loop tr newton ifcs stop_surface xy max_iter_count (init_state start_dir) = Inr s
            \<longrightarrow> 1 \<le> iter_count s \<and> iter_count s \<le> max_iter_count
                \<and> (\<exists>r. ray_pkg s = Some r
                       \<and> calc_vignetted_ray tr newton ifcs stop_surface xy start_dir
                             max_iter_count
                           = Inr (vig_factor start_dir xy s, last_indx s, r)))
       \<and> ((calc_vignetted_ray tr newton ifcs stop_surface xy start_dir max_iter_count = Inl e)
            = (vig_loop tr newton ifcs stop_surface xy max_iter_count (init_state start_dir)
                 = Inl e))"
proof -
  have returns: "1 \<le> iter_count t \<and> iter_count t \<le> max_iter_count
                 \<and> (\<exists>r. ray_pkg t = Some r
                        \<and> calc_vignetted_ray tr newton ifcs stop_surface xy start_dir
                              max_iter_count
                            = Inr (vig_factor start_dir xy t, last_indx t, r))"
    if loop: "vig_loop tr newton ifcs stop_surface xy max_iter_count (init_state start_dir)
                = Inr t" for t
  proof -
    from vig_loop_invariant [OF loop] assms
    have cnt: "1 \<le> iter_count t" "iter_count t \<le> max_iter_count"
      and pkg: "ray_pkg t \<noteq> None"
      by (simp_all add: init_state_def)
    from pkg obtain r where r: "ray_pkg t = Some r" by blast
    with loop have "calc_vignetted_ray tr newton ifcs stop_surface xy start_dir max_iter_count
                      = Inr (vig_factor start_dir xy t, last_indx t, r)"
      by (simp add: calc_vignetted_ray_def vig_return_def)
    with cnt r show ?thesis by blast
  qed
  have raises: "(calc_vignetted_ray tr newton ifcs stop_surface xy start_dir max_iter_count = Inl e)
                = (vig_loop tr newton ifcs stop_surface xy max_iter_count (init_state start_dir)
                     = Inl e)"
  proof (cases "vig_loop tr newton ifcs stop_surface xy max_iter_count (init_state start_dir)")
    case (Inl e')
    then show ?thesis by (simp add: calc_vignetted_ray_def)
  next
    case (Inr t)
    from returns [OF Inr] Inr show ?thesis by auto
  qed
  from returns raises show ?thesis by blast
qed

theorem calc_vignetted_ray_iteration_bound_witness:
  "vig_loop osc_tracer scipy_newton osc_ifcs None AxisX 10 (init_state (1, 0))
     = Inr \<lparr>rel_p1 = (1, 0), still_iterating = True, last_indx = Some 2,
            iter_count = 10, ray_pkg = Some (osc_ray (1 / 2, 0))\<rparr>
   \<and> calc_vignetted_ray osc_tracer scipy_newton osc_ifcs None AxisX (1, 0) 10
       = Inr (Some 0, Some 2, osc_ray (1 / 2, 0))
   \<and> calc_vignetted_ray osc_tracer scipy_newton osc_ifcs None AxisX (1, 0) 10
       \<noteq> Inl UnboundLocalError"
proof -
  have h: "(0::int) < 10" by simp
  from calc_vignetted_ray_iteration_bound
         [where tr = osc_tracer and newton = scipy_newton and ifcs = osc_ifcs
            and stop_surface = None and xy = AxisX and start_dir = "(1, 0)"
            and e = UnboundLocalError
            and s = "\<lparr>rel_p1 = (1, 0), still_iterating = True, last_indx = Some 2,
                       iter_count = 10, ray_pkg = Some (osc_ray (1 / 2, 0))\<rparr>",
          OF h]
       osc_run
  show ?thesis
    by (simp add: vig_factor_def np_divide_def)
qed

subsection \<open>Clear apertures\<close>

text \<open>
  The scan of one interface: the flag \<^verbatim>\<open>update\<close> says that every ray has an
  entry at the index, and the accumulator \<^verbatim>\<open>max_ap\<close> is the maximum of its initial
  value and the radial heights. With no ray at all the initial value -1e10 is
  written.
\<close>

lemma scan_surface_concat:
  "foldl (\<lambda>acc f. foldl (scan_ray i) acc f) acc rayset = foldl (scan_ray i) acc (concat rayset)"
  by (induction rayset arbitrary: acc) simp_all

lemma scan_ray_flag:
  "snd (foldl (scan_ray i) (m, u) rs) = (u \<and> (\<forall>r\<in>set rs. i < length r))"
  by (induction rs arbitrary: m u) (auto simp: scan_ray_def Let_def)

lemma Max_insert_max:
  fixes a b :: real
  assumes "finite S"
  shows "Max (insert (max a b) S) = Max (insert a (insert b S))"
proof (cases "S = {}")
  case True
  then show ?thesis by (simp add: max.commute)
next
  case False
  with assms show ?thesis
    by (simp add: max.assoc)
qed

lemma scan_ray_max:
  "\<forall>r\<in>set rs. i < length r \<Longrightarrow>
   fst (foldl (scan_ray i) (m, u) rs) = Max (insert m ((\<lambda>r. radial (p (r ! i))) ` set rs))"
proof (induction rs arbitrary: m)
  case Nil
  show ?case by simp
next
  case (Cons r rs)
  from Cons.prems have r: "i < length r" and rs: "\<forall>r\<in>set rs. i < length r"
    by simp_all
  from r have step: "scan_ray i (m, u) r = (max m (radial (p (r ! i))), u)"
    by (auto simp: scan_ray_def Let_def max_def)
  have "fst (foldl (scan_ray i) (m, u) (r # rs))
          = Max (insert (max m (radial (p (r ! i)))) ((\<lambda>r. radial (p (r ! i))) ` set rs))"
    using Cons.IH [OF rs] by (simp add: step)
  also have "\<dots> = Max (insert m (insert (radial (p (r ! i))) ((\<lambda>r. radial (p (r ! i))) ` set rs)))"
    by (rule Max_insert_max) simp
  finally show ?case by simp
qed

lemma scan_surface_flag:
  "snd (scan_surface i rayset) = (\<forall>r\<in>set (concat rayset). i < length r)"
  unfolding scan_surface_def scan_surface_concat by (simp only: scan_ray_flag simp_thms)

lemma scan_surface_max:
  assumes "\<forall>r\<in>set (concat rayset). i < length r" and "concat rayset \<noteq> []"
  shows "fst (scan_surface i rayset) = Max ((\<lambda>r. radial (p (r ! i))) ` set (concat rayset))"
proof -
  let ?H = "(\<lambda>r. radial (p (r ! i))) ` set (concat rayset)"
  have fin: "finite ?H" and ne: "?H \<noteq> {}"
    using assms(2) by simp_all
  then have "Max ?H \<in> ?H" by (rule Max_in)
  then obtain r :: ray where "Max ?H = radial (p (r ! i))" by blast
  then have "0 \<le> Max ?H"
    by (simp only: radial_nonneg)
  then have "max (- 10000000000) (Max ?H) = Max ?H"
    by simp
  moreover have "fst (scan_surface i rayset) = Max (insert (- 10000000000) ?H)"
    unfolding scan_surface_def scan_surface_concat by (rule scan_ray_max) (rule assms(1))
  ultimately show ?thesis
    using fin ne by simp
qed

lemma set_ape_nth:
  "i < length ifcs \<Longrightarrow>
   set_ape rayset ifcs ! i
     = (if snd (scan_surface i rayset)
        then (ifcs ! i)\<lparr>max_aperture := fst (scan_surface i rayset)\<rparr> else ifcs ! i)"
  by (simp add: set_ape_def nth_enumerate_eq split: prod.splits)

lemma set_ape_no_rays:
  assumes "i < length ifcs" and "concat rayset = []"
  shows "set_ape rayset ifcs ! i = (ifcs ! i)\<lparr>max_aperture := - 10000000000\<rparr>"
proof -
  have "scan_surface i rayset = (- 10000000000, True)"
    unfolding scan_surface_def scan_surface_concat assms(2) by simp
  with assms(1) show ?thesis
    by (simp add: set_ape_nth)
qed

text \<open>
  C7. For every interface index \<open>i\<close>, \<^verbatim>\<open>set_ape\<close> writes a new clear aperture
  exactly when every boundary ray of every field has an entry at \<open>i\<close> (the flag
  \<^verbatim>\<open>update\<close>): the value written is the maximum of the radial heights
  \<open>sqrt (x\<^sup>2 + y\<^sup>2)\<close> at \<open>i\<close> over all the rays (there being at least one ray,
  so that the maximum exists); when some ray stops before interface \<open>i\<close>, the
  interface is left as it was.
\<close>

theorem set_ape_surface:
  assumes "i < length ifcs"
  shows "length (set_ape rayset ifcs) = length ifcs
       \<and> snd (scan_surface i rayset) = (\<forall>r\<in>set (concat rayset). i < length r)
       \<and> ((\<forall>r\<in>set (concat rayset). i < length r) \<and> concat rayset \<noteq> []
            \<longrightarrow> set_ape rayset ifcs ! i
                  = (ifcs ! i)\<lparr>max_aperture :=
                       Max ((\<lambda>r. radial (p (r ! i))) ` set (concat rayset))\<rparr>)
       \<and> ((\<exists>r\<in>set (concat rayset). \<not> i < length r)
            \<longrightarrow> set_ape rayset ifcs ! i = ifcs ! i)"
proof -
  have len: "length (set_ape rayset ifcs) = length ifcs"
    by (simp add: set_ape_def)
  have upd: "set_ape rayset ifcs ! i
               = (ifcs ! i)\<lparr>max_aperture := Max ((\<lambda>r. radial (p (r ! i))) ` set (concat rayset))\<rparr>"
    if "\<forall>r\<in>set (concat rayset). i < length r" and "concat rayset \<noteq> []"
    using that assms by (simp add: set_ape_nth scan_surface_flag scan_surface_max)
  have keep: "set_ape rayset ifcs ! i = ifcs ! i"
    if "\<exists>r\<in>set (concat rayset). \<not> i < length r"
    using that assms by (auto simp: set_ape_nth scan_surface_flag)
  from len upd keep scan_surface_flag [of i rayset] show ?thesis
    by blast
qed

theorem set_ape_surface_witness:
  "set_ape [field_a, field_b] two_ifcs
     = [\<lparr>max_aperture = 4, surface_od = 9\<rparr>, \<lparr>max_aperture = 7, surface_od = 9\<rparr>]"
proof -
  have l0: "0 < length two_ifcs" and l1: "1 < length two_ifcs"
    by (simp_all add: two_ifcs_def)
  have all0: "\<forall>r\<in>set (concat [field_a, field_b]). 0 < length r"
    and ne: "concat [field_a, field_b] \<noteq> []"
    and some1: "\<exists>r\<in>set (concat [field_a, field_b]). \<not> 1 < length r"
    by (simp_all add: field_a_def field_b_def)
  have m: "Max ((\<lambda>r. radial (p (r ! 0))) ` set (concat [field_a, field_b])) = 4"
    by (simp add: field_a_def field_b_def seg_at_def radial_on_axis)
  from set_ape_surface [OF l0, of "[field_a, field_b]"] all0 ne m
  have s0: "set_ape [field_a, field_b] two_ifcs ! 0 = \<lparr>max_aperture = 4, surface_od = 9\<rparr>"
    by (simp add: two_ifcs_def)
  from set_ape_surface [OF l1, of "[field_a, field_b]"] some1
  have s1: "set_ape [field_a, field_b] two_ifcs ! 1 = \<lparr>max_aperture = 7, surface_od = 9\<rparr>"
    by (simp add: two_ifcs_def)
  have len: "length (set_ape [field_a, field_b] two_ifcs) = 2"
    using set_ape_surface [OF l0, of "[field_a, field_b]"] by (simp add: two_ifcs_def)
  show ?thesis
    using s0 s1 len
    by (auto simp: list_eq_iff_nth_eq nth_Cons' less_Suc_eq numeral_2_eq_2)
qed

end
